theory Spec2Isabelle
  imports Main "HOL-Library.Sublist" "HOL-Library.Multiset"
begin

section \<open>Strings and paths as Python sees them\<close>

text \<open>
  Python strings are modelled as \<^typ>\<open>string\<close>, one \<^typ>\<open>char\<close> per code point
  below 256. \<open>str.startswith\<close> and \<open>str.endswith\<close> compare a slice of the
  receiver with the argument.
\<close>

definition startswith :: "string \<Rightarrow> string \<Rightarrow> bool" where
  "startswith s p = (take (length p) s = p)"

definition endswith :: "string \<Rightarrow> string \<Rightarrow> bool" where
  "endswith s p = (length p \<le> length s \<and> drop (length s - length p) s = p)"

text \<open>\<open>str.isspace\<close> on one code point below 256, and \<open>str.strip()\<close>.\<close>

definition is_space :: "char \<Rightarrow> bool" where
  "is_space c = (let n = of_char c :: nat in
     (9 \<le> n \<and> n \<le> 13) \<or> (28 \<le> n \<and> n \<le> 32) \<or> n = 133 \<or> n = 160)"

definition strip :: "string \<Rightarrow> string" where
  "strip s = rev (dropWhile is_space (rev (dropWhile is_space s)))"

text \<open>\<open>str(n)\<close> for an integer, in decimal.\<close>

definition digit_char :: "nat \<Rightarrow> char" where
  "digit_char d = char_of (48 + d)"

fun str_nat :: "nat \<Rightarrow> string" where
  "str_nat n = (if n < 10 then [digit_char n] else str_nat (n div 10) @ [digit_char (n mod 10)])"

definition str_int :: "int \<Rightarrow> string" where
  "str_int i = (if i < 0 then CHR ''-'' # str_nat (nat (- i)) else str_nat (nat i))"

text \<open>\<open>os.path.join\<close> of \<open>posixpath\<close>, folded over the components.\<close>

definition join2 :: "string \<Rightarrow> string \<Rightarrow> string" where
  "join2 path b =
     (if startswith b ''/'' then b
      else if path = [] \<or> endswith path ''/'' then path @ b
      else path @ ''/'' @ b)"

definition path_join :: "string \<Rightarrow> string list \<Rightarrow> string" where
  "path_join a ps = foldl join2 a ps"

section \<open>Errors\<close>

datatype error =
    Exception string
  | NotImplementedError string
  | ErrorReturnCode int
  | KeyError string
  | TypeError
  | AttributeError
  | FileNotFoundError string
  | ParseError
  | UnicodeDecodeError

section \<open>Tracker data\<close>

record milestone =
  title :: string
  number :: int

record issue =
  issue_number :: int
  html_url :: string
  issue_title :: string
  closed_at :: int
  issue_repr :: string

section \<open>Milestone resolution\<close>

text \<open>\<open>_find\<close>: the first item of the sequence on which \<open>f\<close> holds, \<open>None\<close> when the loop ends.\<close>

fun find_first :: "('a \<Rightarrow> bool) \<Rightarrow> 'a list \<Rightarrow> 'a option" where
  "find_first f [] = None"
| "find_first f (item # seq) = (if f item then Some item else find_first f seq)"

text \<open>
  \<open>_get_milestone\<close>, with the two module-level values it reads as arguments: the version
  and the milestones the tracker yields. A milestone object is truthy, so
  \<open>not milestone\<close> holds exactly when \<open>_find\<close> fell off the end.
\<close>

definition get_milestone :: "string \<Rightarrow> milestone list \<Rightarrow> error + milestone" where
  "get_milestone version milestones =
     (case find_first (\<lambda>m. startswith version (title m)) milestones of
        None \<Rightarrow> Inl (Exception (''Unable to find milestone: '' @ version))
      | Some m \<Rightarrow> Inr m)"


section \<open>The host and the process state\<close>

text \<open>
  Everything the script asks of its environment is a field of \<open>host\<close>: environment
  variables, directories, the answers of external commands (exit code and standard output),
  of the decryption tool, of the tracker and of the file system. The tracker's and the file
  system's answers are taken to be the same each time they are asked during one run.
  \<open>closed_at\<close> of an issue is its closing time as a number; the tracker sets it on every
  issue it returns for \<open>state='closed'\<close>, and nothing reads it on open issues.
  \<open>issue_repr\<close> is the text \<open>repr()\<close> gives for the issue object.
  \<open>read_file\<close> gives the bytes of a file of the host, \<open>None\<close> when there is no such
  file; \<open>decode\<close> is the decoding of bytes in the locale's encoding, \<open>None\<close> when the
  bytes are not valid in it. \<open>parse_plist\<close> is the outcome of lines
  291 to 293 on a descriptor: the exception \<open>ElementTree.parse\<close> raises, or \<open>None\<close> when
  the root has no \<open>dict\<close> child, or the (key text, value text) pairs of that child's
  children taken two by two.
\<close>

record host =
  environ :: "string \<Rightarrow> string option"
  getcwd :: string
  home :: string
  file_dir :: string
  gpg_found :: bool
  gpg_tool :: "string list \<Rightarrow> error + string"
  mktemp :: "string list \<Rightarrow> string"
  run_cmd :: "string \<Rightarrow> int \<times> string"
  read_file :: "string \<Rightarrow> string option"
  decode :: "string \<Rightarrow> string option"
  can_write :: "string \<Rightarrow> bool"
  is_dir :: "string \<Rightarrow> bool"
  getsize :: "string \<Rightarrow> nat option"
  parse_plist :: "string \<Rightarrow> error + (string option \<times> string option) list option"
  now :: string
  iter_milestones :: "milestone list"
  iter_issues :: "int \<Rightarrow> string \<Rightarrow> issue list"
  obj_repr :: "string \<Rightarrow> string"

text \<open>
  What the process changes: the class attribute \<open>DecryptedFiles.tempfiles\<close> (each handle
  with its name and the bytes written so far), the runs of the decryption tool, the commands
  run through \<open>local\<close>, the lines printed, and the files opened for writing (each
  \<open>open(path, "w")\<close> appends the path with empty content, each \<open>write\<close> appends the
  path with the new content; the last entry of a path is its content).
\<close>

record world =
  tempfiles :: "(string \<times> string) list"
  gpg_calls :: "string list list"
  commands :: "string list"
  printed :: "string list"
  files :: "(string \<times> string) list"

type_synonym 'a action = "world \<Rightarrow> (error + 'a) \<times> world"

definition ret :: "'a \<Rightarrow> 'a action" where
  "ret a w = (Inr a, w)"

definition raise :: "error \<Rightarrow> 'a action" where
  "raise e w = (Inl e, w)"

definition bind :: "'a action \<Rightarrow> ('a \<Rightarrow> 'b action) \<Rightarrow> 'b action" where
  "bind m f w = (case m w of (Inl e, w') \<Rightarrow> (Inl e, w') | (Inr a, w') \<Rightarrow> f a w')"

definition lift :: "error + 'a \<Rightarrow> 'a action" where
  "lift r w = (r, w)"

section \<open>Credential resolution\<close>

text \<open>
  The module-level \<open>gpg\<close>: the command object when \<open>sh\<close> imports and finds the tool,
  otherwise the stand-in that raises when it is called.
\<close>

definition gpg :: "host \<Rightarrow> string list \<Rightarrow> string action" where
  "gpg h args w =
     (if gpg_found h then (gpg_tool h args, w\<lparr>gpg_calls := gpg_calls w @ [args]\<rparr>)
      else (Inl (NotImplementedError
        ''the sh module is not installed or gpg command not found; unable to use gpg-encrypted keys''), w))"

text \<open>
  \<open>DecryptedFiles.get_decrypted_key_path\<close>. \<open>NamedTemporaryFile\<close> takes a name from the
  host, which is given the names of the handles still open; the handle is appended before
  the tool runs, and the tool's output is written to it afterwards.
\<close>

definition get_decrypted_key_path :: "host \<Rightarrow> string \<Rightarrow> string action" where
  "get_decrypted_key_path h path w =
     (if \<not> endswith path ''.gpg'' then (Inr path, w)
      else
        let fh_name = mktemp h (map fst (tempfiles w));
            w1 = w\<lparr>tempfiles := tempfiles w @ [(fh_name, [])]\<rparr>
        in case gpg h [''-d'', path] w1 of
             (Inl e, w2) \<Rightarrow> (Inl e, w2)
           | (Inr out, w2) \<Rightarrow>
               (Inr fh_name,
                w2\<lparr>tempfiles := (tempfiles w2)[length (tempfiles w) := (fh_name, out)]\<rparr>))"

section \<open>Templates and rendering\<close>

text \<open>
  A template in parsed form: literal text, \<open>{{name}}\<close> and \<open>{{#name}}...{{/name}}\<close>.
  The three templates below are the source's template strings after \<open>.strip()\<close>, parsed as
  the template library parses them: a section tag alone on its line takes the line's leading
  blanks and its newline with it.
\<close>

datatype node = Text string | Var string | Section string "node list"

definition release_notes_template_html :: "node list" where
  \<open>release_notes_template_html =
    [Text ''<!DOCTYPE HTML PUBLIC "-//IETF//DTD HTML//EN">\<newline><html>\<newline>    <body>\<newline>        <h1>'',
     Var ''proj_name'', Text '' version '', Var ''proj_version'', Text ''</h1>\<newline>\<newline>'',
     Section ''has_issues''
       [Text ''        <h2>Issues closed</h2>\<newline>        <ul>\<newline>'',
        Section ''issues''
          [Text ''            <li><a href="'', Var ''html_url'', Text ''"><b>#'', Var ''number'',
           Text ''</b></a> - '', Var ''title'', Text ''</li>\<newline>''],
        Text ''        </ul>\<newline>''],
     Text ''\<newline>        More information about this release can be found on <a href="'',
     Var ''milestone_url'',
     Text ''">github</a>.\<newline>        <br/><br/>\<newline>        If you find any bugs please report them on <a href="http://github.com/citadelgrad/ShiftIt/issues">github</a>.\<newline>    </body>\<newline></html>'']\<close>

definition release_notes_template_md :: "node list" where
  \<open>release_notes_template_md =
    [Section ''has_issues''
       [Text ''## Issues closed\<newline>'',
        Section ''issues''
          [Text ''- [#'', Var ''number'', Text '']('', Var ''html_url'', Text '') - '', Var ''title'',
           Text ''\<newline>'']],
     Text ''\<newline>More information about this release can be found on [github]('', Var ''milestone_url'',
     Text '').\<newline>\<newline>If you find any bugs please report them on [github](http://github.com/citadelgrad/ShiftIt/issues).'']\<close>

definition appcast_template :: "node list" where
  \<open>appcast_template =
    [Text ''<?xml version="1.0" encoding="utf-8"?>\<newline><rss version="2.0" xmlns:sparkle="http://www.andymatuschak.org/xml-namespaces/sparkle" xmlns:dc="http://purl.org/dc/elements/1.1/">\<newline>   <channel>\<newline>      <title>'',
     Var ''proj_name'', Text '' Changelog</title>\<newline>      <link>'', Var ''proj_appcast_url'',
     Text ''</link>\<newline>      <language>en</language>\<newline>      <item>\<newline>         <title>'',
     Var ''proj_name'', Text '' version '', Var ''proj_version'',
     Text ''</title>\<newline>         <sparkle:releaseNotesLink>\<newline>            '',
     Var ''proj_release_notes_url'',
     Text ''\<newline>         </sparkle:releaseNotesLink>\<newline>         <pubDate>'', Var ''date'',
     Text ''</pubDate>\<newline>         <enclosure\<newline>            url="'', Var ''download_url'',
     Text ''"\<newline>            sparkle:version="'', Var ''proj_version'',
     Text ''"\<newline>            length="'', Var ''download_size'',
     Text ''"\<newline>            type="application/octet-stream"\<newline>            sparkle:edSignature="'',
     Var ''download_signature'',
     Text ''" />\<newline>         <sparkle:minimumSystemVersion>14.6</sparkle:minimumSystemVersion>\<newline>      </item>\<newline>   </channel>\<newline></rss>'']\<close>

text \<open>
  The values a context holds in this script: strings, integers, the flag, and the list of
  issue objects. A frame of the context stack is the dictionary given to \<open>render\<close>, an
  issue object pushed by a list section, or a scalar pushed by a truthy non-list section
  (no name resolves in it). On an issue object the names the templates use resolve to its
  attributes; its other attributes are not modelled.
\<close>

datatype val = VStr string | VInt int | VBool bool | VIssues "issue list"

datatype frame = FDict "(string \<times> val) list" | FIssue issue | FVal val

fun frame_get :: "frame \<Rightarrow> string \<Rightarrow> val option" where
  "frame_get (FDict d) k = map_of d k"
| "frame_get (FIssue i) k =
     (if k = ''number'' then Some (VInt (issue_number i))
      else if k = ''html_url'' then Some (VStr (html_url i))
      else if k = ''title'' then Some (VStr (issue_title i))
      else None)"
| "frame_get (FVal v) k = None"

text \<open>Name resolution walks the stack from the innermost frame outwards.\<close>

fun lookup :: "frame list \<Rightarrow> string \<Rightarrow> val option" where
  "lookup [] k = None"
| "lookup (f # st) k = (case frame_get f k of Some v \<Rightarrow> Some v | None \<Rightarrow> lookup st k)"

definition truthy :: "val \<Rightarrow> bool" where
  "truthy v = (case v of VStr s \<Rightarrow> s \<noteq> [] | VInt i \<Rightarrow> i \<noteq> 0 | VBool b \<Rightarrow> b
                 | VIssues xs \<Rightarrow> xs \<noteq> [])"

text \<open>
  The frames a section is rendered with: none for a missing or falsy value, one per item
  for a list, the value itself otherwise.
\<close>

definition section_frames :: "val option \<Rightarrow> frame list" where
  "section_frames r =
     (case r of
        None \<Rightarrow> []
      | Some v \<Rightarrow>
          if \<not> truthy v then []
          else (case v of VIssues xs \<Rightarrow> map FIssue xs | _ \<Rightarrow> [FVal v]))"

fun intercalate :: "string \<Rightarrow> string list \<Rightarrow> string" where
  "intercalate sep [] = []"
| "intercalate sep [x] = x"
| "intercalate sep (x # y # ys) = x @ sep @ intercalate sep (y # ys)"

definition to_str :: "val \<Rightarrow> string" where
  "to_str v =
     (case v of VStr s \<Rightarrow> s | VInt i \<Rightarrow> str_int i
        | VBool b \<Rightarrow> (if b then ''True'' else ''False'')
        | VIssues xs \<Rightarrow> ''['' @ intercalate '', '' (map issue_repr xs) @ '']'')"

text \<open>The escaping of \<open>{{name}}\<close>: \<open>html.escape(s, quote=True)\<close>.\<close>

definition escape_char :: "char \<Rightarrow> string" where
  "escape_char c =
     (if c = CHR ''&'' then ''&amp;''
      else if c = CHR ''<'' then ''&lt;''
      else if c = CHR ''>'' then ''&gt;''
      else if c = CHR 0x22 then ''&quot;''
      else if c = CHR 0x27 then ''&#x27;''
      else [c])"

definition escape :: "string \<Rightarrow> string" where
  "escape s = concat (map escape_char s)"

fun render_node :: "node \<Rightarrow> frame list \<Rightarrow> string"
  and render_nodes :: "node list \<Rightarrow> frame list \<Rightarrow> string" where
  "render_node (Text s) st = s"
| "render_node (Var k) st = (case lookup st k of None \<Rightarrow> [] | Some v \<Rightarrow> escape (to_str v))"
| "render_node (Section k body) st =
     concat (map (\<lambda>f. render_nodes body (f # st)) (section_frames (lookup st k)))"
| "render_nodes [] st = []"
| "render_nodes (n # ns) st = render_node n st @ render_nodes ns st"

definition render :: "node list \<Rightarrow> (string \<times> val) list \<Rightarrow> string" where
  "render template context = render_nodes template [FDict context]"

section \<open>Module-level configuration\<close>

record config =
  SHIFTIT_GITHUB_USER :: string
  SHIFTIT_GITHUB_REPO :: string
  proj_name :: string
  proj_info_plist :: string
  proj_src_dir :: string
  proj_github_token_file :: string
  proj_sign_update_tool :: string
  proj_build_dir :: string
  proj_app_dir :: string
  proj_public_key :: string
  proj_version :: string
  proj_archive_name :: string
  proj_archive_path :: string
  proj_download_url :: string
  proj_release_notes_url :: string
  proj_release_notes_html_file :: string
  proj_appcast_file :: string
  proj_github_token :: string

text \<open>
  \<open>local\<close>: the command runs with \<open>warn=True\<close>, so no exit code raises. The result is the
  pair of exit code and standard output; a caller that passes \<open>capture=True\<close> reads the
  second component, one that reads \<open>.return_code\<close> the first.
\<close>

definition local :: "host \<Rightarrow> string \<Rightarrow> (int \<times> string) action" where
  "local h cmd w = (Inr (run_cmd h cmd), w\<lparr>commands := commands w @ [cmd]\<rparr>)"

definition puts :: "string \<Rightarrow> unit action" where
  "puts msg w = (Inr (), w\<lparr>printed := printed w @ [msg]\<rparr>)"

definition green :: "string \<Rightarrow> string" where
  "green msg = [CHR 0x1B] @ ''[92m'' @ msg @ [CHR 0x1B] @ ''[0m''"

text \<open>\<open>os.environ[name]\<close> and \<open>os.environ.get(name, default)\<close>.\<close>

definition environ_item :: "host \<Rightarrow> string \<Rightarrow> error + string" where
  "environ_item h name = (case environ h name of None \<Rightarrow> Inl (KeyError name) | Some v \<Rightarrow> Inr v)"

definition environ_get :: "host \<Rightarrow> string \<Rightarrow> string \<Rightarrow> string" where
  "environ_get h name dflt = (case environ h name of None \<Rightarrow> dflt | Some v \<Rightarrow> v)"

text \<open>
  \<open>os.path.expanduser\<close> on a path that starts with \<open>~/\<close>, the only kind the script
  passes: the home directory without trailing slashes, then the rest of the path.
\<close>

definition expanduser_home :: "host \<Rightarrow> string \<Rightarrow> string" where
  "expanduser_home h rest = rev (dropWhile (\<lambda>c. c = CHR ''/'') (rev (home h))) @ rest"

definition get_bundle_version :: "host \<Rightarrow> string \<Rightarrow> string action" where
  "get_bundle_version h info_plist =
     bind (local h (''defaults read '' @ info_plist @ '' CFBundleVersion''))
       (\<lambda>r. ret (strip (snd r)))"

text \<open>
  Reading in text mode translates line ends: \<open>\r\n\<close> and a lone \<open>\r\<close> become \<open>\n\<close>.
\<close>

fun universal_newlines :: "string \<Rightarrow> string" where
  "universal_newlines [] = []"
| "universal_newlines (c # cs) =
     (if c = CHR 0x0D
      then (case cs of
              [] \<Rightarrow> [CHR 0x0A]
            | d # ds \<Rightarrow> if d = CHR 0x0A then CHR 0x0A # universal_newlines ds
                        else CHR 0x0A # universal_newlines cs)
      else c # universal_newlines cs)"

text \<open>
  The bytes a path holds: what the process wrote, for one of its own temporary files, and
  what the host has, for any other path.
\<close>

definition file_bytes :: "host \<Rightarrow> world \<Rightarrow> string \<Rightarrow> string option" where
  "file_bytes h w path =
     (case map_of (tempfiles w) path of Some bytes \<Rightarrow> Some bytes | None \<Rightarrow> read_file h path)"

text \<open>
  \<open>open(path, 'rt').read()\<close>: the file must exist, its bytes are decoded, and line ends
  are translated.
\<close>

definition read_text :: "host \<Rightarrow> world \<Rightarrow> string \<Rightarrow> error + string" where
  "read_text h w path =
     (case file_bytes h w path of
        None \<Rightarrow> Inl (FileNotFoundError path)
      | Some bytes \<Rightarrow>
          (case decode h bytes of
             None \<Rightarrow> Inl UnicodeDecodeError
           | Some s \<Rightarrow> Inr (universal_newlines s)))"

text \<open>\<open>_load_github_token\<close>: the credential file, read in text mode and stripped.\<close>

definition load_github_token :: "host \<Rightarrow> string \<Rightarrow> string action" where
  "load_github_token h path w =
     (case read_text h w path of
        Inl e \<Rightarrow> (Inl e, w)
      | Inr content \<Rightarrow> (Inr (strip content), w))"

text \<open>Lines 228 and 231 of the script, as functions of the values they read.\<close>

definition archive_name_of :: "string \<Rightarrow> string \<Rightarrow> string" where
  "archive_name_of name version = name @ ''-'' @ version @ ''.zip''"

definition download_url_of :: "string \<Rightarrow> string \<Rightarrow> string" where
  "download_url_of version archive_name =
     ''https://github.com/citadelgrad/ShiftIt/releases/download/version-'' @ version @ ''/''
       @ archive_name"

text \<open>
  The module body, top to bottom. The log-in to the tracker and the look-up of the
  repository are not modelled; the tracker's answers are the host's.
\<close>

definition load_module :: "host \<Rightarrow> config action" where
  "load_module h =
     bind (lift (environ_item h ''SHIFTIT_GITHUB_USER'')) (\<lambda>user.
     bind (lift (environ_item h ''SHIFTIT_GITHUB_REPO'')) (\<lambda>repo.
     bind (get_decrypted_key_path h
             (environ_get h ''SHIFTIT_GITHUB_TOKEN''
                (expanduser_home h ''/Keys/ShiftIt/github.token''))) (\<lambda>token_file.
     let name = ''ShiftIt'';
         sign_tool = environ_get h ''SHIFTIT_SIGN_UPDATE''
                       (path_join (file_dir h) [''ShiftIt'', ''bin'', ''sign_update'']);
         src_dir = path_join (getcwd h) [''ShiftIt''];
         build_dir = path_join (getcwd h) [''build''];
         app_dir = path_join src_dir [''build'', ''Release'', name @ ''.app''];
         public_key = path_join src_dir [''dsa_pub.pem''];
         info_plist = path_join src_dir [''ShiftIt-Info.plist'']
     in
     bind (get_bundle_version h info_plist) (\<lambda>version.
     let archive_name = archive_name_of name version in
     bind (load_github_token h token_file) (\<lambda>token.
     ret \<lparr> SHIFTIT_GITHUB_USER = user,
           SHIFTIT_GITHUB_REPO = repo,
           proj_name = name,
           proj_info_plist = info_plist,
           proj_src_dir = src_dir,
           proj_github_token_file = token_file,
           proj_sign_update_tool = sign_tool,
           proj_build_dir = build_dir,
           proj_app_dir = app_dir,
           proj_public_key = public_key,
           proj_version = version,
           proj_archive_name = archive_name,
           proj_archive_path = path_join build_dir [archive_name],
           proj_download_url = download_url_of version archive_name,
           proj_release_notes_url =
             ''http://htmlpreview.github.com/?https://raw.github.com/citadelgrad/ShiftIt/master/release/release-notes-''
               @ version @ ''.html'',
           proj_release_notes_html_file =
             path_join (getcwd h) [''release'', ''release-notes-'' @ version @ ''.html''],
           proj_appcast_file = path_join (getcwd h) [''release'', ''appcast.xml''],
           proj_github_token = token \<rparr>)))))"

section \<open>Release notes\<close>

text \<open>
  Lines 200 and 201: the closed issues of the milestone, sorted in place by
  \<open>list.sort(key=lambda i: i.closed_at)\<close>. Python's sort is stable and ascending; it is
  modelled by the library's stable sort on a key, \<^const>\<open>sort_key\<close>.
\<close>

definition closed_issues :: "host \<Rightarrow> milestone \<Rightarrow> issue list" where
  "closed_issues h m = sort_key closed_at (iter_issues h (number m) ''closed'')"

definition release_notes_context :: "config \<Rightarrow> milestone \<Rightarrow> issue list \<Rightarrow> (string \<times> val) list" where
  "release_notes_context cfg m issues =
     [(''has_issues'', VBool (length issues > 0)),
      (''issues'', VIssues issues),
      (''proj_name'', VStr (proj_name cfg)),
      (''proj_version'', VStr (proj_version cfg)),
      (''milestone_url'',
         VStr (''https://github.com/citadelgrad/ShiftIt/issues?milestone='' @ str_int (number m)))]"

definition gen_release_notes :: "host \<Rightarrow> config \<Rightarrow> node list \<Rightarrow> error + string" where
  "gen_release_notes h cfg template =
     (case get_milestone (proj_version cfg) (iter_milestones h) of
        Inl e \<Rightarrow> Inl e
      | Inr m \<Rightarrow> Inr (render template (release_notes_context cfg m (closed_issues h m))))"

section \<open>Tasks\<close>

definition open_w :: "host \<Rightarrow> string \<Rightarrow> unit action" where
  "open_w h path w =
     (if can_write h path then (Inr (), w\<lparr>files := files w @ [(path, [])]\<rparr>)
      else (Inl (FileNotFoundError path), w))"

definition write_file :: "string \<Rightarrow> string \<Rightarrow> unit action" where
  "write_file path text w = (Inr (), w\<lparr>files := files w @ [(path, text)]\<rparr>)"

fun puts_all :: "string list \<Rightarrow> unit action" where
  "puts_all [] = ret ()"
| "puts_all (l # ls) = bind (puts l) (\<lambda>_. puts_all ls)"

text \<open>
  The module's bindings at the time a task runs, in the order the module body first binds
  them, after the bindings the interpreter makes itself (\<open>pre\<close>). A binding that is not a
  string holds an object, shown by the text \<open>str()\<close> gives for it.
\<close>

datatype gval = GStr string | GObj string

definition str_of :: "gval \<Rightarrow> string" where
  "str_of v = (case v of GStr s \<Rightarrow> s | GObj r \<Rightarrow> r)"

definition module_globals :: "host \<Rightarrow> config \<Rightarrow> (string \<times> gval) list \<Rightarrow> (string \<times> gval) list" where
  "module_globals h cfg pre = pre @
     [(''os'', GObj (obj_repr h ''os'')),
      (''tempfile'', GObj (obj_repr h ''tempfile'')),
      (''sh'', GObj (obj_repr h ''sh'')),
      (''gpg'', GObj (obj_repr h ''gpg'')),
      (''DecryptedFiles'', GObj (obj_repr h ''DecryptedFiles'')),
      (''SHIFTIT_GITHUB_USER'', GStr (SHIFTIT_GITHUB_USER cfg)),
      (''SHIFTIT_GITHUB_REPO'', GStr (SHIFTIT_GITHUB_REPO cfg)),
      (''proj_name'', GStr (proj_name cfg)),
      (''proj_info_plist'', GStr (proj_info_plist cfg)),
      (''proj_src_dir'', GStr (proj_src_dir cfg)),
      (''proj_github_token_file'', GStr (proj_github_token_file cfg)),
      (''proj_sign_update_tool'', GStr (proj_sign_update_tool cfg)),
      (''release_notes_template_html'', GObj (obj_repr h ''release_notes_template_html'')),
      (''release_notes_template_md'', GObj (obj_repr h ''release_notes_template_md'')),
      (''appcast_template'', GObj (obj_repr h ''appcast_template'')),
      (''task'', GObj (obj_repr h ''task'')),
      (''run'', GObj (obj_repr h ''run'')),
      (''Context'', GObj (obj_repr h ''Context'')),
      (''local'', GObj (obj_repr h ''local'')),
      (''puts'', GObj (obj_repr h ''puts'')),
      (''green'', GObj (obj_repr h ''green'')),
      (''lcd'', GObj (obj_repr h ''lcd'')),
      (''settings'', GObj (obj_repr h ''settings'')),
      (''execute'', GObj (obj_repr h ''execute'')),
      (''ElementTree'', GObj (obj_repr h ''ElementTree'')),
      (''pystache'', GObj (obj_repr h ''pystache'')),
      (''github3'', GObj (obj_repr h ''github3'')),
      (''base64'', GObj (obj_repr h ''base64'')),
      (''datetime'', GObj (obj_repr h ''datetime'')),
      (''_find'', GObj (obj_repr h ''_find'')),
      (''_get_bundle_version'', GObj (obj_repr h ''_get_bundle_version'')),
      (''_get_milestone'', GObj (obj_repr h ''_get_milestone'')),
      (''_gen_release_notes'', GObj (obj_repr h ''_gen_release_notes'')),
      (''_load_github_token'', GObj (obj_repr h ''_load_github_token'')),
      (''proj_build_dir'', GStr (proj_build_dir cfg)),
      (''proj_app_dir'', GStr (proj_app_dir cfg)),
      (''proj_public_key'', GStr (proj_public_key cfg)),
      (''proj_version'', GStr (proj_version cfg)),
      (''proj_archive_name'', GStr (proj_archive_name cfg)),
      (''proj_archive_path'', GStr (proj_archive_path cfg)),
      (''proj_download_url'', GStr (proj_download_url cfg)),
      (''proj_release_notes_url'', GStr (proj_release_notes_url cfg)),
      (''proj_release_notes_html_file'', GStr (proj_release_notes_html_file cfg)),
      (''proj_appcast_file'', GStr (proj_appcast_file cfg)),
      (''proj_github_token'', GStr (proj_github_token cfg)),
      (''github'', GObj (obj_repr h ''github'')),
      (''shiftit'', GObj (obj_repr h ''shiftit'')),
      (''info'', GObj (obj_repr h ''info'')),
      (''build'', GObj (obj_repr h ''build'')),
      (''archive'', GObj (obj_repr h ''archive'')),
      (''release_notes'', GObj (obj_repr h ''release_notes'')),
      (''appcast'', GObj (obj_repr h ''appcast'')),
      (''release'', GObj (obj_repr h ''release''))]"

definition info_line :: "string \<times> gval \<Rightarrow> string" where
  "info_line kv = [CHR 0x09] @ drop (length ''proj_'') (fst kv) @ '': '' @ str_of (snd kv)"

definition info :: "(string \<times> gval) list \<Rightarrow> unit action" where
  "info globals =
     bind (puts ''Build info:'') (\<lambda>_.
     puts_all (map info_line (filter (\<lambda>kv. startswith (fst kv) ''proj_'') globals)))"

text \<open>\<open>build\<close>: \<open>lcd\<close> changes into the source directory, which must exist.\<close>

definition build :: "host \<Rightarrow> config \<Rightarrow> unit action" where
  "build h cfg =
     (if \<not> is_dir h (proj_src_dir cfg) then raise (FileNotFoundError (proj_src_dir cfg))
      else bind (local h (''xcodebuild -target '' @ proj_name cfg @ '' -configuration Release''))
             (\<lambda>_. ret ()))"

definition archive :: "host \<Rightarrow> config \<Rightarrow> unit action" where
  "archive h cfg =
     bind (build h cfg) (\<lambda>_.
     bind (local h (''ditto -ck --keepParent '' @ proj_app_dir cfg @ '' '' @ proj_archive_path cfg))
       (\<lambda>_. ret ()))"

definition release_notes :: "host \<Rightarrow> config \<Rightarrow> unit action" where
  "release_notes h cfg =
     bind (open_w h (proj_release_notes_html_file cfg)) (\<lambda>_.
     bind (lift (gen_release_notes h cfg release_notes_template_html)) (\<lambda>text.
     bind (write_file (proj_release_notes_html_file cfg) text) (\<lambda>_.
     puts (''Written '' @ proj_release_notes_html_file cfg))))"

text \<open>
  Lines 291 to 294. An exception of the parser propagates; without a \<open>dict\<close> child
  \<open>root.findall\<close> is called on \<open>None\<close>; without a \<open>SUFeedURL\<close> key \<open>_find\<close> returns
  \<open>None\<close>, which is then indexed; a value element without text has \<open>.text\<close> \<open>None\<close>.
\<close>

definition appcast_url_of :: "host \<Rightarrow> config \<Rightarrow> error + string" where
  "appcast_url_of h cfg =
     (case parse_plist h (proj_info_plist cfg) of
        Inl e \<Rightarrow> Inl e
      | Inr None \<Rightarrow> Inl AttributeError
      | Inr (Some pairs) \<Rightarrow>
          (case find_first (\<lambda>kv. fst kv = Some ''SUFeedURL'') pairs of
             None \<Rightarrow> Inl TypeError
           | Some kv \<Rightarrow> (case snd kv of None \<Rightarrow> Inl AttributeError | Some t \<Rightarrow> Inr (strip t))))"

definition appcast_context ::
  "host \<Rightarrow> config \<Rightarrow> string \<Rightarrow> nat \<Rightarrow> string \<Rightarrow> (string \<times> val) list" where
  "appcast_context h cfg appcast_url download_size signature =
     [(''proj_name'', VStr (proj_name cfg)),
      (''proj_appcast_url'', VStr appcast_url),
      (''proj_version'', VStr (proj_version cfg)),
      (''proj_release_notes_url'', VStr (proj_release_notes_url cfg)),
      (''date'', VStr (now h)),
      (''download_url'', VStr (proj_download_url cfg)),
      (''download_size'', VInt (int download_size)),
      (''download_signature'', VStr signature)]"

definition appcast :: "host \<Rightarrow> config \<Rightarrow> unit action" where
  "appcast h cfg =
     bind (lift (get_milestone (proj_version cfg) (iter_milestones h))) (\<lambda>milestone.
     bind (lift (appcast_url_of h cfg)) (\<lambda>appcast_url.
     bind (archive h cfg) (\<lambda>_.
     bind (release_notes h cfg) (\<lambda>_.
     bind (local h (proj_sign_update_tool cfg @ '' '' @ proj_archive_path cfg)) (\<lambda>sign_result.
     let signature = strip (snd sign_result) in
     bind (lift (case getsize h (proj_archive_path cfg) of
                   None \<Rightarrow> Inl (FileNotFoundError (proj_archive_path cfg))
                 | Some n \<Rightarrow> Inr n)) (\<lambda>download_size.
     bind (open_w h (proj_appcast_file cfg)) (\<lambda>_.
     write_file (proj_appcast_file cfg)
       (render appcast_template (appcast_context h cfg appcast_url download_size signature)))))))))"

definition pending_warning :: string where
  "pending_warning = ''Warning: there are pending changes in the repository. Run git status''"

text \<open>
  Lines 326 to 328: \<open>not local(...).return_code\<close> holds exactly when the exit code is 0.
\<close>

definition preflight_pending :: "host \<Rightarrow> unit action" where
  "preflight_pending h =
     bind (local h ''git diff-index --quiet HEAD --'') (\<lambda>r.
     if fst r = 0 then puts pending_warning else ret ())"

definition open_issue_line :: "issue \<Rightarrow> string" where
  "open_issue_line i =
     [CHR 0x09] @ '' * #'' @ str_int (issue_number i) @ '': '' @ issue_title i"

definition release :: "host \<Rightarrow> config \<Rightarrow> unit action" where
  "release h cfg =
     bind (preflight_pending h) (\<lambda>_.
     bind (lift (get_milestone (proj_version cfg) (iter_milestones h))) (\<lambda>milestone.
     let open_issues = iter_issues h (number milestone) ''open'' in
     bind (if length open_issues > 0
           then bind (puts ''Warning: there are still open issues'')
                  (\<lambda>_. puts_all (map open_issue_line open_issues))
           else ret ()) (\<lambda>_.
     bind (appcast h cfg) (\<lambda>_.
     bind (puts ''\<newline>'') (\<lambda>_.
     bind (puts (replicate 100 CHR ''='')) (\<lambda>_.
     bind (puts (green ''1. Commit appcast and release notes'')) (\<lambda>_.
     bind (puts (''message: '' @ [CHR 0x22] @ ''Added appcast and release notes for the ShiftIt ''
                   @ proj_version cfg @ '' release'' @ [CHR 0x22])) (\<lambda>_.
     bind (puts (green ''2. Finnish the git flow'')) (\<lambda>_.
     bind (puts (green ''3. Close milestone at: https://github.com/citadelgrad/ShiftIt/milestones'')) (\<lambda>_.
     bind (puts (green ''4. Release at: https://github.com/citadelgrad/ShiftIt/releases and drafts a new release with:'')) (\<lambda>_.
     bind (puts (replicate 100 CHR ''-'')) (\<lambda>_.
     bind (puts (''tag: version-'' @ proj_version cfg)) (\<lambda>_.
     bind (puts (''title: '' @ proj_version cfg)) (\<lambda>_.
     bind (puts ''description:'') (\<lambda>_.
     bind (lift (gen_release_notes h cfg release_notes_template_md)) (\<lambda>notes.
     bind (puts notes) (\<lambda>_.
     puts (replicate 100 CHR ''-''))))))))))))))))))"

section \<open>A concrete host\<close>

text \<open>
  A host on which the examples below are evaluated: version 2.1.3, milestones 2.0 and 2.1,
  two closed issues fetched latest first, an encrypted token file, a clean working tree.
\<close>

definition demo_milestones :: "milestone list" where
  "demo_milestones = [\<lparr>title = ''2.0'', number = 1\<rparr>, \<lparr>title = ''2.1'', number = 2\<rparr>]"

definition issue12 :: issue where
  "issue12 = \<lparr>issue_number = 12,
              html_url = ''https://github.com/citadelgrad/ShiftIt/issues/12'',
              issue_title = ''Improve speed'', closed_at = 200,
              issue_repr = ''<Issue [citadelgrad/ShiftIt #12]>''\<rparr>"

definition issue10 :: issue where
  "issue10 = \<lparr>issue_number = 10,
              html_url = ''https://github.com/citadelgrad/ShiftIt/issues/10'',
              issue_title = ''Fix crash'', closed_at = 100,
              issue_repr = ''<Issue [citadelgrad/ShiftIt #10]>''\<rparr>"

definition demo_host :: host where
  "demo_host =
     \<lparr> environ = [''SHIFTIT_GITHUB_USER'' \<mapsto> ''citadelgrad'',
                    ''SHIFTIT_GITHUB_REPO'' \<mapsto> ''ShiftIt'',
                    ''SHIFTIT_GITHUB_TOKEN'' \<mapsto> ''/keys/github.token.gpg''],
       getcwd = ''/repo'',
       home = ''/home/dev'',
       file_dir = ''/repo'',
       gpg_found = True,
       gpg_tool = (\<lambda>args. Inr ''tok123\<newline>''),
       mktemp = (\<lambda>used. ''/tmp/tmp'' @ str_nat (length used)),
       run_cmd = (\<lambda>cmd. if startswith cmd ''defaults read '' then (0, ''2.1.3\<newline>'')
                         else (0, [])),
       read_file = (\<lambda>path. None),
       decode = (\<lambda>bytes. Some bytes),
       can_write = (\<lambda>path. True),
       is_dir = (\<lambda>path. True),
       getsize = (\<lambda>path. Some 1024),
       parse_plist = (\<lambda>path. Inr (Some [(Some ''CFBundleVersion'', Some ''2.1.3''),
                        (Some ''SUFeedURL'', Some ''https://example.org/appcast.xml'')])),
       now = ''Wed, 04 Nov 2026 12:00:00 '',
       iter_milestones = demo_milestones,
       iter_issues = (\<lambda>n st. if n = 2 \<and> st = ''closed'' then [issue12, issue10] else []),
       obj_repr = (\<lambda>name. ''<'' @ name @ ''>'') \<rparr>"

definition world0 :: world where
  "world0 = \<lparr>tempfiles = [], gpg_calls = [], commands = [], printed = [], files = []\<rparr>"

text \<open>The configuration the module body computes on this host.\<close>

definition demo_config :: config where
  "demo_config =
     \<lparr> SHIFTIT_GITHUB_USER = ''citadelgrad'',
       SHIFTIT_GITHUB_REPO = ''ShiftIt'',
       proj_name = ''ShiftIt'',
       proj_info_plist = ''/repo/ShiftIt/ShiftIt-Info.plist'',
       proj_src_dir = ''/repo/ShiftIt'',
       proj_github_token_file = ''/tmp/tmp0'',
       proj_sign_update_tool = ''/repo/ShiftIt/bin/sign_update'',
       proj_build_dir = ''/repo/build'',
       proj_app_dir = ''/repo/ShiftIt/build/Release/ShiftIt.app'',
       proj_public_key = ''/repo/ShiftIt/dsa_pub.pem'',
       proj_version = ''2.1.3'',
       proj_archive_name = ''ShiftIt-2.1.3.zip'',
       proj_archive_path = ''/repo/build/ShiftIt-2.1.3.zip'',
       proj_download_url =
         ''https://github.com/citadelgrad/ShiftIt/releases/download/version-2.1.3/ShiftIt-2.1.3.zip'',
       proj_release_notes_url =
         ''http://htmlpreview.github.com/?https://raw.github.com/citadelgrad/ShiftIt/master/release/release-notes-2.1.3.html'',
       proj_release_notes_html_file = ''/repo/release/release-notes-2.1.3.html'',
       proj_appcast_file = ''/repo/release/appcast.xml'',
       proj_github_token = ''tok123'' \<rparr>"

definition world1 :: world where
  "world1 = \<lparr>tempfiles = [(''/tmp/tmp0'', ''tok123\<newline>'')],
              gpg_calls = [''-d'', ''/keys/github.token.gpg''] # [],
              commands = [''defaults read /repo/ShiftIt/ShiftIt-Info.plist CFBundleVersion''],
              printed = [], files = []\<rparr>"

text \<open>
  The same host without the decryption tool, its token in a plaintext file.
\<close>

definition plain_host :: host where
  "plain_host =
     demo_host\<lparr> gpg_found := False,
                environ := (environ demo_host)(''SHIFTIT_GITHUB_TOKEN'' \<mapsto> ''/keys/github.token''),
                read_file := (\<lambda>path. if path = ''/keys/github.token''
                                      then Some ''tok123\<newline>'' else None) \<rparr>"


text \<open>A template without its top-level sections named \<open>k\<close>.\<close>

fun is_section :: "string \<Rightarrow> node \<Rightarrow> bool" where
  "is_section k (Section k' body) = (k = k')"
| "is_section k (Text s) = False"
| "is_section k (Var k') = False"

definition drop_section :: "string \<Rightarrow> node list \<Rightarrow> node list" where
  "drop_section k template = filter (\<lambda>n. \<not> is_section k n) template"

section \<open>Facts about the string helpers\<close>

lemma startswith_prefix: "startswith s p \<longleftrightarrow> prefix p s"
  unfolding startswith_def
  by (metis append_eq_conv_conj prefix_def append_take_drop_id)

lemma endswith_suffix: "endswith s p \<longleftrightarrow> suffix p s"
proof
  assume "endswith s p"
  then have "drop (length s - length p) s = p" by (simp add: endswith_def)
  then show "suffix p s" by (metis suffix_drop)
next
  assume "suffix p s"
  then obtain zs where "s = zs @ p" by (auto simp: suffix_def)
  then show "endswith s p" by (simp add: endswith_def)
qed

lemma find_first_None: "find_first f xs = None \<longleftrightarrow> (\<forall>x \<in> set xs. \<not> f x)"
  by (induction xs) auto

lemma find_first_Some:
  "find_first f xs = Some m \<longleftrightarrow>
     (\<exists>pre post. xs = pre @ m # post \<and> f m \<and> (\<forall>x \<in> set pre. \<not> f x))"
proof (induction xs)
  case Nil
  then show ?case by simp
next
  case (Cons a xs)
  show ?case
  proof (cases "f a")
    case True
    have "(\<exists>pre post. a # xs = pre @ m # post \<and> f m \<and> (\<forall>x \<in> set pre. \<not> f x)) \<longleftrightarrow> a = m"
    proof
      assume "\<exists>pre post. a # xs = pre @ m # post \<and> f m \<and> (\<forall>x \<in> set pre. \<not> f x)"
      then obtain pre post where d: "a # xs = pre @ m # post" "\<forall>x \<in> set pre. \<not> f x"
        by blast
      show "a = m"
      proof (cases pre)
        case Nil
        with d show ?thesis by simp
      next
        case (Cons b bs)
        with d True show ?thesis by auto
      qed
    next
      assume "a = m"
      with True have "a # xs = [] @ m # xs \<and> f m \<and> (\<forall>x \<in> set []. \<not> f x)" by simp
      then show "\<exists>pre post. a # xs = pre @ m # post \<and> f m \<and> (\<forall>x \<in> set pre. \<not> f x)"
        by blast
    qed
    with True show ?thesis by simp
  next
    case False
    have "(\<exists>pre post. a # xs = pre @ m # post \<and> f m \<and> (\<forall>x \<in> set pre. \<not> f x)) \<longleftrightarrow>
          (\<exists>pre post. xs = pre @ m # post \<and> f m \<and> (\<forall>x \<in> set pre. \<not> f x))"
    proof
      assume "\<exists>pre post. a # xs = pre @ m # post \<and> f m \<and> (\<forall>x \<in> set pre. \<not> f x)"
      then obtain pre post where d: "a # xs = pre @ m # post" "f m" "\<forall>x \<in> set pre. \<not> f x"
        by blast
      show "\<exists>pre post. xs = pre @ m # post \<and> f m \<and> (\<forall>x \<in> set pre. \<not> f x)"
      proof (cases pre)
        case Nil
        with d False show ?thesis by simp
      next
        case (Cons b bs)
        with d have "xs = bs @ m # post \<and> f m \<and> (\<forall>x \<in> set bs. \<not> f x)" by simp
        then show ?thesis by blast
      qed
    next
      assume "\<exists>pre post. xs = pre @ m # post \<and> f m \<and> (\<forall>x \<in> set pre. \<not> f x)"
      then obtain pre post where d: "xs = pre @ m # post" "f m" "\<forall>x \<in> set pre. \<not> f x"
        by blast
      with False have "a # xs = (a # pre) @ m # post \<and> f m \<and> (\<forall>x \<in> set (a # pre). \<not> f x)"
        by simp
      then show "\<exists>pre post. a # xs = pre @ m # post \<and> f m \<and> (\<forall>x \<in> set pre. \<not> f x)"
        by blast
    qed
    with False Cons.IH show ?thesis by simp
  qed
qed

section \<open>Sequencing\<close>


lemma bind_lift_Inl: "bind (lift (Inl e)) f w = (Inl e, w)"
  by (simp add: bind_def lift_def)


section \<open>Milestone resolution: the first prefix match, or a fatal error\<close>

lemma get_milestone_Inr:
  "get_milestone v M = Inr m \<longleftrightarrow>
     (\<exists>pre post. M = pre @ m # post \<and> prefix (title m) v \<and> (\<forall>x \<in> set pre. \<not> prefix (title x) v))"
proof -
  have "get_milestone v M = Inr m \<longleftrightarrow> find_first (\<lambda>m. startswith v (title m)) M = Some m"
    by (simp add: get_milestone_def split: option.splits)
  then show ?thesis
    by (simp add: find_first_Some startswith_prefix)
qed

lemma get_milestone_Inl:
  "get_milestone v M = Inl e \<longleftrightarrow>
     e = Exception (''Unable to find milestone: '' @ v) \<and> (\<forall>x \<in> set M. \<not> prefix (title x) v)"
proof -
  have "get_milestone v M = Inl e \<longleftrightarrow>
          e = Exception (''Unable to find milestone: '' @ v)
          \<and> find_first (\<lambda>m. startswith v (title m)) M = None"
    by (auto simp: get_milestone_def split: option.splits)
  then show ?thesis
    by (simp add: find_first_None startswith_prefix)
qed

lemma gen_release_notes_abort:
  "get_milestone (proj_version cfg) (iter_milestones h) = Inl e \<Longrightarrow> gen_release_notes h cfg t = Inl e"
  by (simp add: gen_release_notes_def)

lemma appcast_abort:
  "get_milestone (proj_version cfg) (iter_milestones h) = Inl e \<Longrightarrow> appcast h cfg w = (Inl e, w)"
  by (simp add: appcast_def bind_lift_Inl)

lemma preflight_pending_ok: "fst (preflight_pending h w) = Inr ()"
  by (simp add: preflight_pending_def bind_def local_def puts_def ret_def)

lemma release_abort:
  "get_milestone (proj_version cfg) (iter_milestones h) = Inl e \<Longrightarrow> fst (release h cfg w) = Inl e"
proof -
  assume a: "get_milestone (proj_version cfg) (iter_milestones h) = Inl e"
  obtain w' where p: "preflight_pending h w = (Inr (), w')"
    using preflight_pending_ok [of h w] by (cases "preflight_pending h w") auto
  show ?thesis
    unfolding release_def
    by (subst bind_def) (simp add: p a bind_lift_Inl)
qed

lemma release_notes_abort:
  "get_milestone (proj_version cfg) (iter_milestones h) = Inl e \<Longrightarrow> fst (release_notes h cfg w) \<noteq> Inr ()"
  by (simp add: release_notes_def bind_def open_w_def lift_def gen_release_notes_abort)

text \<open>
  C1. For every version \<open>v\<close> and milestone list \<open>M\<close>, \<open>_get_milestone\<close> returns \<open>m\<close>
  exactly when \<open>m\<close> is the first element of \<open>M\<close>, in the given order, whose title is a
  prefix of \<open>v\<close>; it raises "Unable to find milestone" exactly when no title is a prefix of
  \<open>v\<close>. That exception is not caught: release-notes generation fails with it, the feed
  stage ends with it and leaves the state as it was, and so do the release-notes task and the
  release action.
\<close>

theorem milestone_resolution:
  "(get_milestone v M = Inr m \<longleftrightarrow>
      (\<exists>pre post. M = pre @ m # post \<and> prefix (title m) v
         \<and> (\<forall>x \<in> set pre. \<not> prefix (title x) v)))
   \<and> (get_milestone v M = Inl (Exception (''Unable to find milestone: '' @ v)) \<longleftrightarrow>
        (\<forall>x \<in> set M. \<not> prefix (title x) v))
   \<and> ((\<forall>x \<in> set (iter_milestones h). \<not> prefix (title x) (proj_version cfg)) \<longrightarrow>
        gen_release_notes h cfg t = Inl (Exception (''Unable to find milestone: '' @ proj_version cfg))
        \<and> appcast h cfg w = (Inl (Exception (''Unable to find milestone: '' @ proj_version cfg)), w)
        \<and> fst (release h cfg w) = Inl (Exception (''Unable to find milestone: '' @ proj_version cfg))
        \<and> fst (release_notes h cfg w) \<noteq> Inr ())"
proof (intro conjI impI)
  show "get_milestone v M = Inr m \<longleftrightarrow>
      (\<exists>pre post. M = pre @ m # post \<and> prefix (title m) v
         \<and> (\<forall>x \<in> set pre. \<not> prefix (title x) v))"
    by (rule get_milestone_Inr)
  show "get_milestone v M = Inl (Exception (''Unable to find milestone: '' @ v)) \<longleftrightarrow>
        (\<forall>x \<in> set M. \<not> prefix (title x) v)"
    by (simp add: get_milestone_Inl)
next
  assume "\<forall>x \<in> set (iter_milestones h). \<not> prefix (title x) (proj_version cfg)"
  then have a: "get_milestone (proj_version cfg) (iter_milestones h)
                  = Inl (Exception (''Unable to find milestone: '' @ proj_version cfg))"
    by (simp add: get_milestone_Inl)
  show "gen_release_notes h cfg t = Inl (Exception (''Unable to find milestone: '' @ proj_version cfg))"
    by (rule gen_release_notes_abort [OF a])
  show "appcast h cfg w = (Inl (Exception (''Unable to find milestone: '' @ proj_version cfg)), w)"
    by (rule appcast_abort [OF a])
  show "fst (release h cfg w) = Inl (Exception (''Unable to find milestone: '' @ proj_version cfg))"
    by (rule release_abort [OF a])
  show "fst (release_notes h cfg w) \<noteq> Inr ()"
    by (rule release_notes_abort [OF a])
qed

theorem milestone_resolution_witness:
  "get_milestone ''2.1.3'' [\<lparr>title = ''2.0'', number = 1\<rparr>, \<lparr>title = ''2.1'', number = 2\<rparr>]
     = Inr \<lparr>title = ''2.1'', number = 2\<rparr>
   \<and> get_milestone ''3.0'' [\<lparr>title = ''2.0'', number = 1\<rparr>, \<lparr>title = ''2.1'', number = 2\<rparr>]
     = Inl (Exception ''Unable to find milestone: 3.0'')
   \<and> appcast demo_host (demo_config\<lparr>proj_version := ''3.0''\<rparr>) world1
     = (Inl (Exception ''Unable to find milestone: 3.0''), world1)"
proof -
  let ?M = "[\<lparr>title = ''2.0'', number = 1\<rparr>, \<lparr>title = ''2.1'', number = 2::int\<rparr>]"
  let ?m = "\<lparr>title = ''2.1'', number = 2::int\<rparr>"
  have "?M = [\<lparr>title = ''2.0'', number = 1\<rparr>] @ ?m # [] \<and> prefix (title ?m) ''2.1.3''
        \<and> (\<forall>x \<in> set [\<lparr>title = ''2.0'', number = 1::int\<rparr>]. \<not> prefix (title x) ''2.1.3'')"
    by simp
  then have e: "\<exists>pre post. ?M = pre @ ?m # post \<and> prefix (title ?m) ''2.1.3''
        \<and> (\<forall>x \<in> set pre. \<not> prefix (title x) ''2.1.3'')"
    by blast
  have n: "\<forall>x \<in> set ?M. \<not> prefix (title x) ''3.0''"
    by simp
  have d: "\<forall>x \<in> set (iter_milestones demo_host).
             \<not> prefix (title x) (proj_version (demo_config\<lparr>proj_version := ''3.0''\<rparr>))"
    by (simp add: demo_host_def demo_milestones_def)
  from milestone_resolution [of "''2.1.3''" ?M ?m demo_host demo_config release_notes_template_md world1] e
  have 1: "get_milestone ''2.1.3'' ?M = Inr ?m" by blast
  from milestone_resolution [of "''3.0''" ?M ?m demo_host demo_config release_notes_template_md world1] n
  have 2: "get_milestone ''3.0'' ?M = Inl (Exception ''Unable to find milestone: 3.0'')" by simp
  from milestone_resolution [of "''3.0''" ?M ?m demo_host "demo_config\<lparr>proj_version := ''3.0''\<rparr>" release_notes_template_md world1] d
  have 3: "appcast demo_host (demo_config\<lparr>proj_version := ''3.0''\<rparr>) world1
     = (Inl (Exception ''Unable to find milestone: 3.0''), world1)" by simp
  from 1 2 3 show ?thesis by blast
qed

section \<open>Issue ordering\<close>

text \<open>
  C4. The closed issues of a milestone, as release-notes generation orders them, have
  non-decreasing closing times; issues with the same closing time keep the order in which they
  were fetched; the result holds the fetched issues and no others; and this ordered list is
  the one handed to the renderer.
\<close>

theorem closed_issues_sorted_stable:
  "sorted (map closed_at (closed_issues h m))
   \<and> (\<forall>t. filter (\<lambda>i. closed_at i = t) (closed_issues h m)
            = filter (\<lambda>i. closed_at i = t) (iter_issues h (number m) ''closed''))
   \<and> mset (closed_issues h m) = mset (iter_issues h (number m) ''closed'')
   \<and> map_of (release_notes_context cfg m (closed_issues h m)) ''issues''
        = Some (VIssues (closed_issues h m))"
  by (simp add: closed_issues_def sort_key_stable release_notes_context_def)

lemma closed_issues_example:
  "closed_issues demo_host \<lparr>title = ''2.1'', number = 2\<rparr> = [issue10, issue12]"
  by code_simp

section \<open>Archive naming\<close>

lemma load_module_naming:
  assumes "load_module h w = (Inr cfg, w')"
  shows "proj_name cfg = ''ShiftIt''
         \<and> proj_archive_name cfg = archive_name_of (proj_name cfg) (proj_version cfg)
         \<and> proj_download_url cfg = download_url_of (proj_version cfg) (proj_archive_name cfg)"
  using assms
  by (auto simp: load_module_def bind_def lift_def ret_def Let_def
           split: sum.splits prod.splits)

lemma load_module_demo: "load_module demo_host world0 = (Inr demo_config, world1)"
  by code_simp

text \<open>
  C5. The archive name is the project name, a hyphen, the version and \<open>.zip\<close>; the download
  URL is the fixed base, \<open>/version-\<close>, the version, a slash and the archive name. For
  ShiftIt 2.1.3 the archive is \<open>ShiftIt-2.1.3.zip\<close> and the URL ends in
  \<open>/version-2.1.3/ShiftIt-2.1.3.zip\<close>. The module body computes its two values this way.
\<close>

theorem archive_naming:
  "archive_name_of name version = name @ ''-'' @ version @ ''.zip''
   \<and> download_url_of version (archive_name_of name version)
       = ''https://github.com/citadelgrad/ShiftIt/releases/download'' @ ''/version-'' @ version
           @ ''/'' @ archive_name_of name version
   \<and> archive_name_of ''ShiftIt'' ''2.1.3'' = ''ShiftIt-2.1.3.zip''
   \<and> suffix ''/version-2.1.3/ShiftIt-2.1.3.zip''
        (download_url_of ''2.1.3'' (archive_name_of ''ShiftIt'' ''2.1.3''))
   \<and> (load_module h w = (Inr cfg, w') \<longrightarrow>
        proj_archive_name cfg = archive_name_of (proj_name cfg) (proj_version cfg)
        \<and> proj_download_url cfg = download_url_of (proj_version cfg) (proj_archive_name cfg))"
proof (intro conjI impI)
  show "suffix ''/version-2.1.3/ShiftIt-2.1.3.zip''
        (download_url_of ''2.1.3'' (archive_name_of ''ShiftIt'' ''2.1.3''))"
    unfolding suffix_def
    by (rule exI [of _ "''https://github.com/citadelgrad/ShiftIt/releases/download''"])
       (simp add: download_url_of_def archive_name_of_def)
qed (simp_all add: archive_name_of_def download_url_of_def load_module_naming)

theorem archive_naming_witness:
  "load_module demo_host world0 = (Inr demo_config, world1)
   \<and> proj_archive_name demo_config
       = archive_name_of (proj_name demo_config) (proj_version demo_config)
   \<and> proj_download_url demo_config
       = download_url_of (proj_version demo_config) (proj_archive_name demo_config)"
  using archive_naming [of "''ShiftIt''" "''2.1.3''" demo_host world0 demo_config world1]
    load_module_demo
  by blast

section \<open>The pending-changes check\<close>

lemma preflight_pending_eq:
  "preflight_pending h w =
     (Inr (),
      if fst (run_cmd h ''git diff-index --quiet HEAD --'') = 0
      then w\<lparr>commands := commands w @ [''git diff-index --quiet HEAD --''],
              printed := printed w @ [pending_warning]\<rparr>
      else w\<lparr>commands := commands w @ [''git diff-index --quiet HEAD --'']\<rparr>)"
  by (simp add: preflight_pending_def bind_def local_def puts_def ret_def)

text \<open>
  C7. On a clean working tree the check command exits with 0, and the warning about pending
  changes is printed; when the command exits with 1, as it does on a tree with uncommitted
  changes, nothing is printed. In both cases the step returns normally.
\<close>

theorem preflight_pending_inverted:
  "fst (run_cmd demo_host ''git diff-index --quiet HEAD --'') = 0
   \<and> preflight_pending demo_host world1
       = (Inr (), world1\<lparr>commands := commands world1 @ [''git diff-index --quiet HEAD --''],
                          printed := [pending_warning]\<rparr>)
   \<and> preflight_pending (demo_host\<lparr>run_cmd := (\<lambda>cmd. (1, []))\<rparr>) world1
       = (Inr (), world1\<lparr>commands := commands world1 @ [''git diff-index --quiet HEAD --'']\<rparr>)"
  by (simp add: preflight_pending_eq demo_host_def startswith_def world1_def)

section \<open>The info action\<close>

lemma puts_all_eq: "puts_all ls w = (Inr (), w\<lparr>printed := printed w @ ls\<rparr>)"
  by (induction ls arbitrary: w) (simp_all add: ret_def bind_def puts_def)

lemma info_eq:
  "info g w = (Inr (), w\<lparr>printed := printed w @ ''Build info:'' #
                  map info_line (filter (\<lambda>kv. startswith (fst kv) ''proj_'') g)\<rparr>)"
  by (simp add: info_def bind_def puts_def puts_all_eq)

lemma token_in_globals:
  "(''proj_github_token'', GStr (proj_github_token cfg)) \<in> set (module_globals h cfg pre)"
  by (simp add: module_globals_def)

lemma info_line_token:
  "info_line (''proj_github_token'', GStr t) = [CHR 0x09] @ ''github_token: '' @ t"
  by (simp add: info_line_def str_of_def)

lemma load_module_token:
  assumes "load_module h w0 = (Inr cfg, w1)"
  shows "fst (get_decrypted_key_path h
                (environ_get h ''SHIFTIT_GITHUB_TOKEN''
                   (expanduser_home h ''/Keys/ShiftIt/github.token'')) w0)
           = Inr (proj_github_token_file cfg)
         \<and> (\<exists>content. read_text h w1 (proj_github_token_file cfg) = Inr content
                \<and> proj_github_token cfg = strip content)"
  using assms
  by (auto simp: load_module_def bind_def lift_def ret_def Let_def get_bundle_version_def
        local_def load_github_token_def
        split: sum.splits prod.splits)

lemma universal_newlines_example:
  "universal_newlines [CHR ''a'', CHR 0x0D, CHR 0x0A, CHR ''b'', CHR 0x0D, CHR ''c'']
     = [CHR ''a'', CHR 0x0A, CHR ''b'', CHR 0x0A, CHR ''c'']"
  by code_simp

lemma token_line_printed:
  "[CHR 0x09] @ ''github_token: '' @ proj_github_token cfg
     \<in> set (printed (snd (info (module_globals h cfg pre) w)))"
proof -
  have "startswith (fst (''proj_github_token'', GStr (proj_github_token cfg))) ''proj_''"
    by (simp add: startswith_def)
  with token_in_globals [of cfg h pre]
  have "info_line (''proj_github_token'', GStr (proj_github_token cfg))
          \<in> set (printed (snd (info (module_globals h cfg pre) w)))"
    by (simp add: info_eq image_iff) blast
  then show ?thesis
    by (simp only: info_line_token)
qed

lemma loaded_token_printed:
  assumes "load_module h w0 = (Inr cfg, w1)"
  shows "\<exists>content. read_text h w1 (proj_github_token_file cfg) = Inr content
           \<and> proj_github_token cfg = strip content
           \<and> [CHR 0x09] @ ''github_token: '' @ strip content
               \<in> set (printed (snd (info (module_globals h cfg pre) w)))"
proof -
  from load_module_token [OF assms]
  obtain content where c: "read_text h w1 (proj_github_token_file cfg) = Inr content"
    "proj_github_token cfg = strip content"
    by blast
  from token_line_printed [of cfg h pre w] c(2)
  have "[CHR 0x09] @ ''github_token: '' @ strip content
               \<in> set (printed (snd (info (module_globals h cfg pre) w)))"
    by simp
  with c show ?thesis by blast
qed

text \<open>
  C10. \<open>info\<close> prints the heading and then, for every module-level binding whose name starts
  with \<open>proj_\<close>, in order, a tab, the name without that prefix, a colon and the value; no
  other binding is printed. \<open>proj_github_token\<close> is such a binding, so its value is among
  the printed lines. Whenever the module body completes, that value is the token loaded from
  the credential file: \<open>proj_github_token_file\<close> is the path credential resolution returned
  for the configured token path, and the printed value is the content of that file, read in
  text mode and stripped. On the example host, where the decryption tool yields \<open>tok123\<close>
  and a newline, \<open>info\<close> prints \<open>github_token: tok123\<close>.
\<close>

theorem info_prints_token:
  "info g w = (Inr (), w\<lparr>printed := printed w @ ''Build info:'' #
                  map info_line (filter (\<lambda>kv. startswith (fst kv) ''proj_'') g)\<rparr>)
   \<and> [CHR 0x09] @ ''github_token: '' @ proj_github_token cfg
       \<in> set (printed (snd (info (module_globals h cfg pre) w)))
   \<and> (load_module h w0 = (Inr cfg, w1) \<longrightarrow>
        fst (get_decrypted_key_path h
               (environ_get h ''SHIFTIT_GITHUB_TOKEN''
                  (expanduser_home h ''/Keys/ShiftIt/github.token'')) w0)
          = Inr (proj_github_token_file cfg)
        \<and> (\<exists>content. read_text h w1 (proj_github_token_file cfg) = Inr content
              \<and> proj_github_token cfg = strip content
              \<and> [CHR 0x09] @ ''github_token: '' @ strip content
                  \<in> set (printed (snd (info (module_globals h cfg pre) w)))))
   \<and> load_module demo_host world0 = (Inr demo_config, world1)
   \<and> [CHR 0x09] @ ''github_token: tok123''
       \<in> set (printed (snd (info (module_globals demo_host demo_config []) world1)))"
proof (intro conjI impI)
  show "info g w = (Inr (), w\<lparr>printed := printed w @ ''Build info:'' #
                  map info_line (filter (\<lambda>kv. startswith (fst kv) ''proj_'') g)\<rparr>)"
    by (rule info_eq)
  show "[CHR 0x09] @ ''github_token: '' @ proj_github_token cfg
       \<in> set (printed (snd (info (module_globals h cfg pre) w)))"
    by (rule token_line_printed)
  show "load_module demo_host world0 = (Inr demo_config, world1)"
    by (rule load_module_demo)
  have t: "proj_github_token demo_config = ''tok123''"
    by (simp add: demo_config_def)
  have e: "[CHR 0x09] @ ''github_token: '' @ ''tok123'' = [CHR 0x09] @ ''github_token: tok123''"
    by simp
  from token_line_printed [of demo_config demo_host "[]" world1]
  show "[CHR 0x09] @ ''github_token: tok123''
       \<in> set (printed (snd (info (module_globals demo_host demo_config []) world1)))"
    by (simp only: t e)
next
  assume l: "load_module h w0 = (Inr cfg, w1)"
  from load_module_token [OF l]
  show "fst (get_decrypted_key_path h
               (environ_get h ''SHIFTIT_GITHUB_TOKEN''
                  (expanduser_home h ''/Keys/ShiftIt/github.token'')) w0)
          = Inr (proj_github_token_file cfg)"
    by blast
  from loaded_token_printed [OF l]
  show "\<exists>content. read_text h w1 (proj_github_token_file cfg) = Inr content
              \<and> proj_github_token cfg = strip content
              \<and> [CHR 0x09] @ ''github_token: '' @ strip content
                  \<in> set (printed (snd (info (module_globals h cfg pre) w)))"
    .
qed

theorem info_prints_token_witness:
  "load_module demo_host world0 = (Inr demo_config, world1)
   \<and> fst (get_decrypted_key_path demo_host ''/keys/github.token.gpg'' world0) = Inr ''/tmp/tmp0''
   \<and> read_text demo_host world1 ''/tmp/tmp0'' = Inr ''tok123\<newline>''
   \<and> proj_github_token demo_config = strip ''tok123\<newline>''
   \<and> [CHR 0x09] @ ''github_token: '' @ strip ''tok123\<newline>''
       \<in> set (printed (snd (info (module_globals demo_host demo_config []) world1)))"
proof -
  have l: "load_module demo_host world0 = (Inr demo_config, world1)"
    by (rule load_module_demo)
  have p: "environ_get demo_host ''SHIFTIT_GITHUB_TOKEN''
             (expanduser_home demo_host ''/Keys/ShiftIt/github.token'') = ''/keys/github.token.gpg''"
    by code_simp
  have f: "proj_github_token_file demo_config = ''/tmp/tmp0''"
    by (simp add: demo_config_def)
  have r: "read_text demo_host world1 ''/tmp/tmp0'' = Inr ''tok123\<newline>''"
    by code_simp
  from info_prints_token [of "[]" world1 demo_config demo_host "[]" world0 world1] l
  have k: "fst (get_decrypted_key_path demo_host
               (environ_get demo_host ''SHIFTIT_GITHUB_TOKEN''
                  (expanduser_home demo_host ''/Keys/ShiftIt/github.token'')) world0)
          = Inr (proj_github_token_file demo_config)"
    and x: "\<exists>content. read_text demo_host world1 (proj_github_token_file demo_config) = Inr content
              \<and> proj_github_token demo_config = strip content
              \<and> [CHR 0x09] @ ''github_token: '' @ strip content
                  \<in> set (printed (snd (info (module_globals demo_host demo_config []) world1)))"
    by blast+
  from x obtain content where c:
    "read_text demo_host world1 (proj_github_token_file demo_config) = Inr content"
    "proj_github_token demo_config = strip content"
    "[CHR 0x09] @ ''github_token: '' @ strip content
       \<in> set (printed (snd (info (module_globals demo_host demo_config []) world1)))"
    by blast
  from c(1) r have "content = ''tok123\<newline>''"
    unfolding f by simp
  with c(2,3) l k r show ?thesis
    unfolding p f by blast
qed

section \<open>Credential resolution\<close>

lemma plain_path_noop:
  "\<not> endswith path ''.gpg'' \<Longrightarrow> get_decrypted_key_path h path w = (Inr path, w)"
  by (simp add: get_decrypted_key_path_def)

lemma gpg_absent_raises:
  "\<not> gpg_found h \<Longrightarrow> endswith path ''.gpg'' \<Longrightarrow>
     fst (get_decrypted_key_path h path w) = Inl (NotImplementedError
       ''the sh module is not installed or gpg command not found; unable to use gpg-encrypted keys'')"
  by (simp add: get_decrypted_key_path_def gpg_def Let_def)

lemma gpg_calls_only_encrypted:
  "gpg_calls (snd (get_decrypted_key_path h path w)) \<noteq> gpg_calls w \<Longrightarrow> endswith path ''.gpg''"
  by (rule ccontr) (simp add: get_decrypted_key_path_def)

lemma load_module_plain_token:
  assumes "\<not> endswith (environ_get h ''SHIFTIT_GITHUB_TOKEN''
                        (expanduser_home h ''/Keys/ShiftIt/github.token'')) ''.gpg''"
  shows "fst (load_module h w) \<noteq> Inl (NotImplementedError msg)
         \<and> gpg_calls (snd (load_module h w)) = gpg_calls w"
  using assms
  by (auto simp: load_module_def bind_def lift_def ret_def Let_def plain_path_noop
        environ_item_def get_bundle_version_def local_def load_github_token_def
        read_text_def
        split: option.splits)

text \<open>
  C8. A path that does not end in \<open>.gpg\<close> is returned as it is, with the state unchanged:
  no temporary file, no run of the decryption tool. The tool is run only for a path that ends
  in \<open>.gpg\<close>. When the tool is absent, the error is raised by the call that asks for the
  decryption of such a path; the module body, given a plaintext token path, never ends with
  that error and never runs the tool, whether the tool is present or not.
\<close>

theorem plain_path_unchanged:
  "(\<not> endswith path ''.gpg'' \<longrightarrow> get_decrypted_key_path h path w = (Inr path, w))
   \<and> (gpg_calls (snd (get_decrypted_key_path h path w)) \<noteq> gpg_calls w \<longrightarrow> endswith path ''.gpg'')
   \<and> (\<not> gpg_found h \<and> endswith path ''.gpg'' \<longrightarrow>
        fst (get_decrypted_key_path h path w) = Inl (NotImplementedError
          ''the sh module is not installed or gpg command not found; unable to use gpg-encrypted keys''))
   \<and> (\<not> endswith (environ_get h ''SHIFTIT_GITHUB_TOKEN''
                      (expanduser_home h ''/Keys/ShiftIt/github.token'')) ''.gpg'' \<longrightarrow>
        fst (load_module h w) \<noteq> Inl (NotImplementedError msg)
        \<and> gpg_calls (snd (load_module h w)) = gpg_calls w)"
  using plain_path_noop [of path h w] gpg_calls_only_encrypted [of h path w]
    gpg_absent_raises [of h path w] load_module_plain_token [of h w msg]
  by blast


theorem plain_path_unchanged_witness:
  "get_decrypted_key_path plain_host ''/keys/github.token'' world0
     = (Inr ''/keys/github.token'', world0)
   \<and> endswith ''/keys/github.token.gpg'' ''.gpg''
   \<and> fst (get_decrypted_key_path plain_host ''/keys/github.token.gpg'' world0)
       = Inl (NotImplementedError
          ''the sh module is not installed or gpg command not found; unable to use gpg-encrypted keys'')
   \<and> fst (load_module plain_host world0) \<noteq> Inl (NotImplementedError [])
   \<and> gpg_calls (snd (load_module plain_host world0)) = gpg_calls world0"
proof -
  have a: "\<not> endswith ''/keys/github.token'' ''.gpg''"
    by code_simp
  have b: "gpg_calls (snd (get_decrypted_key_path demo_host ''/keys/github.token.gpg'' world0))
             \<noteq> gpg_calls world0"
    by code_simp
  have c: "\<not> gpg_found plain_host"
    by code_simp
  have d: "\<not> endswith (environ_get plain_host ''SHIFTIT_GITHUB_TOKEN''
                         (expanduser_home plain_host ''/Keys/ShiftIt/github.token'')) ''.gpg''"
    by code_simp
  from plain_path_unchanged [of "''/keys/github.token''" plain_host world0 "[]"] a d
  have 1: "get_decrypted_key_path plain_host ''/keys/github.token'' world0
             = (Inr ''/keys/github.token'', world0)"
    and 4: "fst (load_module plain_host world0) \<noteq> Inl (NotImplementedError [])
            \<and> gpg_calls (snd (load_module plain_host world0)) = gpg_calls world0"
    by blast+
  from plain_path_unchanged [of "''/keys/github.token.gpg''" demo_host world0 "[]"] b
  have 2: "endswith ''/keys/github.token.gpg'' ''.gpg''"
    by blast
  from plain_path_unchanged [of "''/keys/github.token.gpg''" plain_host world0 "[]"] c 2
  have 3: "fst (get_decrypted_key_path plain_host ''/keys/github.token.gpg'' world0)
       = Inl (NotImplementedError
          ''the sh module is not installed or gpg command not found; unable to use gpg-encrypted keys'')"
    by blast
  from 1 2 3 4 show ?thesis by blast
qed

section \<open>Repeated resolution of an encrypted path\<close>

lemma resolve_encrypted:
  assumes "endswith p ''.gpg''" "gpg_found h" "gpg_tool h [''-d'', p] = Inr out"
  shows "get_decrypted_key_path h p w =
           (Inr (mktemp h (map fst (tempfiles w))),
            w\<lparr>tempfiles := tempfiles w @ [(mktemp h (map fst (tempfiles w)), out)],
              gpg_calls := gpg_calls w @ [[''-d'', p]]\<rparr>)"
  using assms by (simp add: get_decrypted_key_path_def gpg_def Let_def)

text \<open>
  C2, as the code has it. Resolution of an encrypted path is not cached. Whenever the
  decryption tool is present and succeeds on \<open>p\<close>, each call runs the tool once and returns
  the name of a temporary file created by that call, which holds the tool's output and whose
  handle is kept in \<open>DecryptedFiles.tempfiles\<close>. Two calls in a row run the tool twice and
  create two temporary files; their names differ whenever the host gives the second file a
  name that is not in use.
\<close>

theorem resolve_decrypts_each_time:
  assumes "endswith p ''.gpg''" and "gpg_found h" and "gpg_tool h [''-d'', p] = Inr out"
    and "get_decrypted_key_path h p w = (r1, w1)"
    and "get_decrypted_key_path h p w1 = (r2, w2)"
  shows "r1 = Inr (mktemp h (map fst (tempfiles w)))
         \<and> r2 = Inr (mktemp h (map fst (tempfiles w1)))
         \<and> tempfiles w1 = tempfiles w @ [(mktemp h (map fst (tempfiles w)), out)]
         \<and> tempfiles w2 = tempfiles w1 @ [(mktemp h (map fst (tempfiles w1)), out)]
         \<and> gpg_calls w1 = gpg_calls w @ [[''-d'', p]]
         \<and> gpg_calls w2 = gpg_calls w @ [[''-d'', p], [''-d'', p]]
         \<and> (mktemp h (map fst (tempfiles w1)) \<notin> set (map fst (tempfiles w1)) \<longrightarrow> r1 \<noteq> r2)"
proof -
  from assms(4) resolve_encrypted [OF assms(1-3), of w]
  have 1: "r1 = Inr (mktemp h (map fst (tempfiles w)))"
    and w1: "w1 = w\<lparr>tempfiles := tempfiles w @ [(mktemp h (map fst (tempfiles w)), out)],
                    gpg_calls := gpg_calls w @ [[''-d'', p]]\<rparr>"
    by simp_all
  from assms(5) resolve_encrypted [OF assms(1-3), of w1]
  have 2: "r2 = Inr (mktemp h (map fst (tempfiles w1)))"
    and w2: "w2 = w1\<lparr>tempfiles := tempfiles w1 @ [(mktemp h (map fst (tempfiles w1)), out)],
                     gpg_calls := gpg_calls w1 @ [[''-d'', p]]\<rparr>"
    by simp_all
  have 3: "mktemp h (map fst (tempfiles w1)) \<notin> set (map fst (tempfiles w1)) \<longrightarrow> r1 \<noteq> r2"
    using 1 2 w1 by auto
  from 1 2 3 w1 w2 show ?thesis by simp
qed

theorem resolve_decrypts_each_time_witness:
  "gpg_calls (snd (get_decrypted_key_path demo_host ''/keys/github.token.gpg''
            (snd (get_decrypted_key_path demo_host ''/keys/github.token.gpg'' world0))))
     = gpg_calls world0 @ [[''-d'', ''/keys/github.token.gpg''], [''-d'', ''/keys/github.token.gpg'']]
   \<and> fst (get_decrypted_key_path demo_host ''/keys/github.token.gpg'' world0)
       \<noteq> fst (get_decrypted_key_path demo_host ''/keys/github.token.gpg''
            (snd (get_decrypted_key_path demo_host ''/keys/github.token.gpg'' world0)))"
proof -
  let ?p = "''/keys/github.token.gpg''"
  let ?c1 = "get_decrypted_key_path demo_host ?p world0"
  let ?c2 = "get_decrypted_key_path demo_host ?p (snd ?c1)"
  have a: "endswith ?p ''.gpg''"
    by code_simp
  have b: "gpg_found demo_host"
    by code_simp
  have c: "gpg_tool demo_host [''-d'', ?p] = Inr ''tok123\<newline>''"
    by code_simp
  have d: "?c1 = (fst ?c1, snd ?c1)" and e: "?c2 = (fst ?c2, snd ?c2)"
    by simp_all
  have f: "mktemp demo_host (map fst (tempfiles (snd ?c1))) \<notin> set (map fst (tempfiles (snd ?c1)))"
    by code_simp
  from resolve_decrypts_each_time [OF a b c d e] f
  show ?thesis by blast
qed

text \<open>
  C2 as the specification states it fails: on the example host, two calls on the same
  encrypted path return two different temporary files and run the decryption tool twice.
\<close>

theorem resolve_twice_decrypts_twice:
  "endswith ''/keys/github.token.gpg'' ''.gpg''
   \<and> fst (get_decrypted_key_path demo_host ''/keys/github.token.gpg'' world0) = Inr ''/tmp/tmp0''
   \<and> fst (get_decrypted_key_path demo_host ''/keys/github.token.gpg''
            (snd (get_decrypted_key_path demo_host ''/keys/github.token.gpg'' world0)))
       = Inr ''/tmp/tmp1''
   \<and> gpg_calls (snd (get_decrypted_key_path demo_host ''/keys/github.token.gpg''
            (snd (get_decrypted_key_path demo_host ''/keys/github.token.gpg'' world0))))
       = [[''-d'', ''/keys/github.token.gpg''], [''-d'', ''/keys/github.token.gpg'']]"
  by code_simp

section \<open>Release notes without closed issues\<close>

lemma closed_issues_empty:
  "iter_issues h (number m) ''closed'' = [] \<Longrightarrow> closed_issues h m = []"
  by (simp add: closed_issues_def)

lemma render_drop_section:
  "lookup st k = Some (VBool False) \<Longrightarrow>
     render_nodes (filter (\<lambda>n. \<not> is_section k n) t) st = render_nodes t st"
proof (induction t)
  case Nil
  show ?case by simp
next
  case (Cons n t)
  show ?case
  proof (cases n)
    case (Section k' body)
    with Cons show ?thesis
      by (cases "k = k'") (simp_all add: section_frames_def truthy_def)
  qed (use Cons in simp_all)
qed

lemma has_issues_flag:
  "map_of (release_notes_context cfg m issues) ''has_issues'' = Some (VBool (issues \<noteq> []))"
  by (simp add: release_notes_context_def)

lemma render_no_issues:
  "render t (release_notes_context cfg m [])
     = render (drop_section ''has_issues'' t) (release_notes_context cfg m [])"
  unfolding render_def drop_section_def
  by (rule render_drop_section [symmetric]) (simp add: has_issues_flag)

lemma md_no_issues:
  \<open>render release_notes_template_md (release_notes_context cfg m [])
     = ''\<newline>More information about this release can be found on [github](''
       @ escape (''https://github.com/citadelgrad/ShiftIt/issues?milestone='' @ str_int (number m))
       @ '').\<newline>\<newline>If you find any bugs please report them on [github](http://github.com/citadelgrad/ShiftIt/issues).''\<close>
  by (simp add: render_def release_notes_template_md_def release_notes_context_def
        section_frames_def truthy_def to_str_def)

lemma html_no_issues:
  \<open>render release_notes_template_html (release_notes_context cfg m [])
     = ''<!DOCTYPE HTML PUBLIC "-//IETF//DTD HTML//EN">\<newline><html>\<newline>    <body>\<newline>        <h1>''
       @ escape (proj_name cfg) @ '' version '' @ escape (proj_version cfg)
       @ ''</h1>\<newline>\<newline>\<newline>        More information about this release can be found on <a href="''
       @ escape (''https://github.com/citadelgrad/ShiftIt/issues?milestone='' @ str_int (number m))
       @ ''">github</a>.\<newline>        <br/><br/>\<newline>        If you find any bugs please report them on <a href="http://github.com/citadelgrad/ShiftIt/issues">github</a>.\<newline>    </body>\<newline></html>''\<close>
  by (simp add: render_def release_notes_template_html_def release_notes_context_def
        section_frames_def truthy_def to_str_def)


text \<open>
  C6. When the tracker returns no closed issue for the resolved milestone, the issue list
  is empty (no error is raised), the \<open>has_issues\<close> flag of the context is false, and the
  release notes are the text of the template without its \<open>has_issues\<close> section: in HTML
  and in Markdown the heading "Issues closed" and the list around the issues are absent, and
  the text goes from the title (HTML) or from the start (Markdown) straight to the closing
  paragraph.
\<close>

theorem no_closed_issues_no_section:
  assumes "get_milestone (proj_version cfg) (iter_milestones h) = Inr m"
    and "iter_issues h (number m) ''closed'' = []"
  shows \<open>closed_issues h m = []
    \<and> map_of (release_notes_context cfg m (closed_issues h m)) ''has_issues'' = Some (VBool False)
    \<and> gen_release_notes h cfg release_notes_template_html
        = Inr (render (drop_section ''has_issues'' release_notes_template_html)
                 (release_notes_context cfg m []))
    \<and> gen_release_notes h cfg release_notes_template_md
        = Inr (render (drop_section ''has_issues'' release_notes_template_md)
                 (release_notes_context cfg m []))
    \<and> gen_release_notes h cfg release_notes_template_html
        = Inr (''<!DOCTYPE HTML PUBLIC "-//IETF//DTD HTML//EN">\<newline><html>\<newline>    <body>\<newline>        <h1>''
       @ escape (proj_name cfg) @ '' version '' @ escape (proj_version cfg)
       @ ''</h1>\<newline>\<newline>\<newline>        More information about this release can be found on <a href="''
       @ escape (''https://github.com/citadelgrad/ShiftIt/issues?milestone='' @ str_int (number m))
       @ ''">github</a>.\<newline>        <br/><br/>\<newline>        If you find any bugs please report them on <a href="http://github.com/citadelgrad/ShiftIt/issues">github</a>.\<newline>    </body>\<newline></html>'')
    \<and> gen_release_notes h cfg release_notes_template_md
        = Inr (''\<newline>More information about this release can be found on [github](''
       @ escape (''https://github.com/citadelgrad/ShiftIt/issues?milestone='' @ str_int (number m))
       @ '').\<newline>\<newline>If you find any bugs please report them on [github](http://github.com/citadelgrad/ShiftIt/issues).'')\<close>
proof -
  have e: "closed_issues h m = []"
    by (rule closed_issues_empty [OF assms(2)])
  have g: "gen_release_notes h cfg t = Inr (render t (release_notes_context cfg m []))" for t
    by (simp add: gen_release_notes_def assms(1) e)
  show ?thesis
    unfolding g e has_issues_flag
    by (simp only: render_no_issues [symmetric] html_no_issues md_no_issues simp_thms)
qed

theorem no_closed_issues_no_section_witness:
  \<open>get_milestone (proj_version demo_config)
      (iter_milestones (demo_host\<lparr>iter_issues := (\<lambda>n st. [])\<rparr>))
     = Inr \<lparr>title = ''2.1'', number = 2\<rparr>
   \<and> gen_release_notes (demo_host\<lparr>iter_issues := (\<lambda>n st. [])\<rparr>) demo_config
         release_notes_template_md
       = Inr (''\<newline>More information about this release can be found on [github](''
       @ escape (''https://github.com/citadelgrad/ShiftIt/issues?milestone='' @ str_int 2)
       @ '').\<newline>\<newline>If you find any bugs please report them on [github](http://github.com/citadelgrad/ShiftIt/issues).'')\<close>
proof -
  let ?h = "demo_host\<lparr>iter_issues := (\<lambda>n st. [])\<rparr>"
  let ?m = "\<lparr>title = ''2.1'', number = 2::int\<rparr>"
  have a: "get_milestone (proj_version demo_config) (iter_milestones ?h) = Inr ?m"
    by code_simp
  have b: "iter_issues ?h (number ?m) ''closed'' = []"
    by simp
  have n: "number ?m = 2"
    by simp
  from no_closed_issues_no_section [OF a b] a show ?thesis
    unfolding n by (elim conjE) (intro conjI, assumption+)
qed

lemma notes_with_issues_example:
  \<open>gen_release_notes demo_host demo_config release_notes_template_md
     = Inr ''## Issues closed\<newline>- [#10](https://github.com/citadelgrad/ShiftIt/issues/10) - Fix crash\<newline>- [#12](https://github.com/citadelgrad/ShiftIt/issues/12) - Improve speed\<newline>\<newline>More information about this release can be found on [github](https://github.com/citadelgrad/ShiftIt/issues?milestone=2).\<newline>\<newline>If you find any bugs please report them on [github](http://github.com/citadelgrad/ShiftIt/issues).''\<close>
  by code_simp

lemma notes_html_example:
  \<open>gen_release_notes demo_host demo_config release_notes_template_html
     = Inr ''<!DOCTYPE HTML PUBLIC "-//IETF//DTD HTML//EN">\<newline><html>\<newline>    <body>\<newline>        <h1>ShiftIt version 2.1.3</h1>\<newline>\<newline>        <h2>Issues closed</h2>\<newline>        <ul>\<newline>            <li><a href="https://github.com/citadelgrad/ShiftIt/issues/10"><b>#10</b></a> - Fix crash</li>\<newline>            <li><a href="https://github.com/citadelgrad/ShiftIt/issues/12"><b>#12</b></a> - Improve speed</li>\<newline>        </ul>\<newline>\<newline>        More information about this release can be found on <a href="https://github.com/citadelgrad/ShiftIt/issues?milestone=2">github</a>.\<newline>        <br/><br/>\<newline>        If you find any bugs please report them on <a href="http://github.com/citadelgrad/ShiftIt/issues">github</a>.\<newline>    </body>\<newline></html>''\<close>
  by code_simp

section \<open>The feed stage and the signing tool\<close>









end
